theory Spec2Isabelle
  imports Main "HOL-Library.Sublist"
begin

section \<open>The contact lookup endpoint of \<^verbatim>\<open>3cx_api/main.py\<close>\<close>

text \<open>
  The module has two functions of its own: \<^verbatim>\<open>get_current_credentials\<close>, the dependency that
  checks the HTTP Basic credentials, and \<^verbatim>\<open>lookup_contact\<close>, the handler of
  \<^verbatim>\<open>GET /contacts\<close>, which validates the two query parameters, runs one SQL query and
  reshapes its rows. Both are embedded below, together with what they rely on: Python's
  truthiness, \<^verbatim>\<open>str.replace\<close>, \<^verbatim>\<open>str.split\<close>, \<^verbatim>\<open>str.join\<close>, the WHERE clause of the query
  under SQL's three-valued logic, and the order in which the route runs the dependency, the
  limiter's wrapper and the handler's body.

  A Python \<^verbatim>\<open>str\<close> is a \<^typ>\<open>string\<close>, one \<^typ>\<open>char\<close> for each character;
  \<^verbatim>\<open>Optional[str]\<close> and a nullable column are \<^typ>\<open>string option\<close>, with \<^term>\<open>None\<close>
  for \<^verbatim>\<open>None\<close> and for SQL's NULL.
\<close>

subsection \<open>Python values\<close>

definition truthy :: "string option \<Rightarrow> bool" where
  \<comment> \<open>the truth value of an \<^verbatim>\<open>Optional[str]\<close>: \<^verbatim>\<open>None\<close> and \<^verbatim>\<open>""\<close> are false\<close>
  "truthy v = (case v of None \<Rightarrow> False | Some s \<Rightarrow> s \<noteq> [])"

definition replace_spaces :: "string \<Rightarrow> string" where
  \<comment> \<open>\<^verbatim>\<open>s.replace(' ', '')\<close>, and SQL's \<^verbatim>\<open>REPLACE(s, ' ', '')\<close> on a value that is not NULL\<close>
  "replace_spaces s = filter (\<lambda>c. c \<noteq> CHR '' '') s"

fun str_split :: "char \<Rightarrow> string \<Rightarrow> string list" where
  \<comment> \<open>\<^verbatim>\<open>s.split(sep)\<close> with a separator of one character: never an empty list\<close>
  "str_split sep [] = [[]]"
| "str_split sep (c # cs) =
     (if c = sep then [] # str_split sep cs
      else (case str_split sep cs of
              [] \<Rightarrow> [[c]]
            | w # ws \<Rightarrow> (c # w) # ws))"

fun str_join :: "string \<Rightarrow> string list \<Rightarrow> string" where
  \<comment> \<open>\<^verbatim>\<open>sep.join(parts)\<close>\<close>
  "str_join sep [] = []"
| "str_join sep [w] = w"
| "str_join sep (w # v # ws) = w @ sep @ str_join sep (v # ws)"

datatype json =
    JNull
  | JInt int
  | JStr string
  | JList "json list"
  | JObj "(string \<times> json) list"

subsection \<open>Exceptions and the events a request leaves behind\<close>

text \<open>
  A function that raises returns \<^term>\<open>Inl\<close> of the exception. Beside its result, every
  function returns the list of the events it caused, in order: the statements executed on
  the session and the calls of the logger that do not depend on the log level. The lines
  written only when \<^verbatim>\<open>LOG_LEVEL\<close> is DEBUG are left out.
\<close>

datatype exn =
    HTTPException nat string
  | RateLimitExceeded

fun status_code :: "exn \<Rightarrow> nat" where
  \<comment> \<open>the status the client sees; \<^verbatim>\<open>_rate_limit_exceeded_handler\<close>, registered on the
      application, answers 429\<close>
  "status_code (HTTPException code detail) = code"
| "status_code RateLimitExceeded = 429"

datatype level = DEBUG | WARNING | ERROR

record parameters =
  like_pattern :: "string option"
  number :: "string option"
  exact_email :: "string option"
  email :: "string option"

datatype event =
    Log level string
  | Execute parameters

fun is_execute :: "event \<Rightarrow> bool" where
  "is_execute (Execute ps) = True"
| "is_execute (Log l m) = False"

subsection \<open>Authentication\<close>

record config =
  API_KEY :: string
  API_PASSWORD :: string

record HTTPBasicCredentials =
  username :: string
  password :: string

text \<open>
  \<^verbatim>\<open>secrets.compare_digest\<close> is the equality of its two arguments, computed in time that does
  not depend on where they differ; the timing is outside the model. The credentials are the
  ones the Basic scheme has decoded, as ASCII text, from the Authorization header: a request
  without that header is answered by the scheme itself and never reaches this function. The
  configured pair is the two module constants, read from the environment and stripped; it is
  taken to be ASCII text as well, where \<^verbatim>\<open>compare_digest\<close> accepts strings.
\<close>

definition compare_digest :: "string \<Rightarrow> string \<Rightarrow> bool" where
  "compare_digest a b = (a = b)"

definition get_current_credentials ::
    "config \<Rightarrow> HTTPBasicCredentials \<Rightarrow> (exn + string) \<times> event list" where
  "get_current_credentials cfg credentials =
     (let correct_username = compare_digest (username credentials) (API_KEY cfg);
          correct_password = compare_digest (password credentials) (API_PASSWORD cfg)
      in if \<not> (correct_username \<and> correct_password)
         then (Inl (HTTPException 403 ''Could not validate credentials''),
               [Log WARNING ''Invalid API Key or Password''])
         else (Inr (username credentials), []))"

subsection \<open>The store and the query\<close>

text \<open>
  The table \<^verbatim>\<open>Users\<close> is a list of rows in the store's own order. The session comes from
  \<^verbatim>\<open>get_db\<close>, which is not part of this module, so it is a parameter: its rows, whether
  executing a statement on it raises (and with what message), and whether the store reads a
  backslash in a LIKE pattern as an escape character (MySQL and PostgreSQL do, SQLite and
  the SQL standard without an ESCAPE clause do not), and the key by which LIKE compares a
  character of the value with a literal character of the pattern. LIKE works character by
  character, and two characters match when their keys are equal: the key is the character
  itself where LIKE compares exactly (PostgreSQL), the character with ASCII letters folded
  to one case on SQLite (\<open>ascii_fold\<close> below), and the weight of the character in the
  column's collation on MySQL, whose default collations fold case as well. The operator
  \<^verbatim>\<open>=\<close> of the email predicate compares two strings exactly.
\<close>

record user_row =
  row_id :: int
  RealName :: "string option"
  WorkPhone :: "string option"
  MobilePhone :: "string option"
  HomePhone :: "string option"
  EmailAddress :: "string option"
  Organization :: "string option"

record session =
  Users :: "user_row list"
  failure :: "string option"
  backslash_escapes :: bool
  like_key :: "char \<Rightarrow> char"


text \<open>SQL's truth values: \<^term>\<open>None\<close> is UNKNOWN.\<close>

type_synonym sql_bool = "bool option"

definition sql_and :: "sql_bool \<Rightarrow> sql_bool \<Rightarrow> sql_bool" where
  "sql_and a b =
     (if a = Some False \<or> b = Some False then Some False
      else if a = Some True \<and> b = Some True then Some True
      else None)"

definition sql_or :: "sql_bool \<Rightarrow> sql_bool \<Rightarrow> sql_bool" where
  "sql_or a b =
     (if a = Some True \<or> b = Some True then Some True
      else if a = Some False \<and> b = Some False then Some False
      else None)"

definition sql_is_not_null :: "string option \<Rightarrow> sql_bool" where
  "sql_is_not_null v = Some (v \<noteq> None)"

definition sql_eq :: "string option \<Rightarrow> string option \<Rightarrow> sql_bool" where
  "sql_eq a b =
     (case a of None \<Rightarrow> None
      | Some x \<Rightarrow> (case b of None \<Rightarrow> None | Some y \<Rightarrow> Some (x = y)))"

definition sql_replace_spaces :: "string option \<Rightarrow> string option" where
  \<comment> \<open>\<^verbatim>\<open>REPLACE(col, ' ', '')\<close>: NULL stays NULL\<close>
  "sql_replace_spaces v = map_option replace_spaces v"

datatype like_token = AnyString | AnyChar | Lit char

definition like_token_of :: "char \<Rightarrow> like_token" where
  "like_token_of p =
     (if p = CHR ''%'' then AnyString else if p = CHR ''_'' then AnyChar else Lit p)"

fun like_tokens :: "bool \<Rightarrow> string \<Rightarrow> like_token list" where
  \<comment> \<open>reading a LIKE pattern: \<^verbatim>\<open>%\<close> is any string, \<^verbatim>\<open>_\<close> any one character; where the
      store escapes by backslash, a backslash makes the next character literal. A backslash
      that ends the pattern stands for itself; the handler's patterns end in \<^verbatim>\<open>%\<close>\<close>
  "like_tokens esc [] = []"
| "like_tokens esc [p] = [like_token_of p]"
| "like_tokens esc (p # q # qs) =
     (if esc \<and> p = CHR 0x5C then Lit q # like_tokens esc qs
      else like_token_of p # like_tokens esc (q # qs))"

fun tokens_match :: "(char \<Rightarrow> char) \<Rightarrow> like_token list \<Rightarrow> string \<Rightarrow> bool" where
  \<comment> \<open>a literal character of the pattern matches a character with the same key\<close>
  "tokens_match key [] s = (s = [])"
| "tokens_match key (AnyString # ts) [] = tokens_match key ts []"
| "tokens_match key (AnyString # ts) (c # cs) =
     (tokens_match key ts (c # cs) \<or> tokens_match key (AnyString # ts) cs)"
| "tokens_match key (AnyChar # ts) [] = False"
| "tokens_match key (AnyChar # ts) (c # cs) = tokens_match key ts cs"
| "tokens_match key (Lit p # ts) [] = False"
| "tokens_match key (Lit p # ts) (c # cs) = (key c = key p \<and> tokens_match key ts cs)"

definition sql_like ::
    "bool \<Rightarrow> (char \<Rightarrow> char) \<Rightarrow> string option \<Rightarrow> string option \<Rightarrow> sql_bool" where
  \<comment> \<open>\<^verbatim>\<open>value LIKE pattern\<close>: UNKNOWN when either side is NULL\<close>
  "sql_like esc key v pat =
     (case v of None \<Rightarrow> None
      | Some s \<Rightarrow> (case pat of None \<Rightarrow> None
                  | Some p \<Rightarrow> Some (tokens_match key (like_tokens esc p) s)))"

definition where_clause ::
    "bool \<Rightarrow> (char \<Rightarrow> char) \<Rightarrow> parameters \<Rightarrow> user_row \<Rightarrow> sql_bool" where
  "where_clause esc key ps u =
     sql_or
       (sql_and (sql_is_not_null (number ps))
          (sql_or
             (sql_or (sql_like esc key (sql_replace_spaces (HomePhone u)) (like_pattern ps))
                     (sql_like esc key (sql_replace_spaces (WorkPhone u)) (like_pattern ps)))
             (sql_like esc key (sql_replace_spaces (MobilePhone u)) (like_pattern ps))))
       (sql_and (sql_is_not_null (email ps))
          (sql_eq (EmailAddress u) (exact_email ps)))"

definition selected :: "bool \<Rightarrow> (char \<Rightarrow> char) \<Rightarrow> parameters \<Rightarrow> user_row \<Rightarrow> bool" where
  \<comment> \<open>a row is in the result when its WHERE clause is TRUE (not FALSE, not UNKNOWN)\<close>
  "selected esc key ps u = (where_clause esc key ps u = Some True)"

record result_row =
  contactid :: int
  firstname :: "string option"
  lastname :: "string option"
  PhoneBusiness :: "string option"
  PhoneMobile :: "string option"
  PhoneHome :: "string option"
  Email :: "string option"
  company :: "string option"

definition select_list :: "user_row \<Rightarrow> result_row" where
  "select_list u =
     \<lparr>contactid = row_id u, firstname = RealName u, lastname = RealName u,
      PhoneBusiness = WorkPhone u, PhoneMobile = MobilePhone u, PhoneHome = HomePhone u,
      Email = EmailAddress u, company = Organization u\<rparr>"

definition execute :: "session \<Rightarrow> parameters \<Rightarrow> string + result_row list" where
  \<comment> \<open>\<^verbatim>\<open>db.execute(query, parameters).fetchall()\<close>: the rows, or the message of the exception\<close>
  "execute db ps =
     (case failure db of
        Some msg \<Rightarrow> Inl msg
      | None \<Rightarrow>
          Inr (map select_list
                 (filter (selected (backslash_escapes db) (like_key db) ps) (Users db))))"

subsection \<open>The handler\<close>

definition build_parameters :: "string option \<Rightarrow> string option \<Rightarrow> parameters" where
  \<comment> \<open>the dictionary \<^verbatim>\<open>parameters\<close>; \<^verbatim>\<open>search_number\<close> is the number without its spaces\<close>
  "build_parameters Number Email' =
     \<lparr>like_pattern =
        (if truthy Number
         then (let search_number = replace_spaces (the Number)
               in Some (''%'' @ search_number @ ''%''))
         else None),
      number = (if truthy Number then Number else None),
      exact_email = (if truthy Email' then Email' else None),
      email = (if truthy Email' then Email' else None)\<rparr>"

definition or_empty :: "string option \<Rightarrow> string" where
  \<comment> \<open>\<^verbatim>\<open>v if v else ""\<close>\<close>
  "or_empty v = (if truthy v then the v else [])"

definition format_contact :: "result_row \<Rightarrow> json" where
  "format_contact contact =
     (let real_name = or_empty (firstname contact);
          name_parts = str_split CHR '' '' real_name;
          first_name = (if name_parts \<noteq> [] then hd name_parts else []);
          last_name = (if length name_parts > 1 then str_join '' '' (tl name_parts) else [])
      in JObj [(''contactid'', JInt (contactid contact)),
               (''firstname'', JStr first_name),
               (''lastname'', JStr last_name),
               (''company'', JStr (or_empty (company contact))),
               (''email'', (case Email contact of None \<Rightarrow> JNull | Some s \<Rightarrow> JStr s)),
               (''phonebusiness'', JStr (or_empty (PhoneBusiness contact))),
               (''phonemobile'', JStr (or_empty (PhoneMobile contact))),
               (''phonehome'', JStr (or_empty (PhoneHome contact)))])"

definition lookup_contact ::
    "session \<Rightarrow> string option \<Rightarrow> string option \<Rightarrow> (exn + json) \<times> event list" where
  "lookup_contact db Number Email' =
     (if \<not> truthy Number \<and> \<not> truthy Email'
      then (Inl (HTTPException 400 ''Either Number or Email must be provided''),
            [Log DEBUG ''Missing query parameters: Number or Email must be provided''])
      else
        (let ps = build_parameters Number Email'
         in case execute db ps of
              Inl e \<Rightarrow>
                (Inl (HTTPException 500 ''Database error occurred.''),
                 [Execute ps, Log ERROR (''Database error: '' @ e)])
            | Inr results \<Rightarrow>
                if results = []
                then (Inl (HTTPException 404 ''Contact not found''),
                      [Execute ps, Log DEBUG ''No contacts found for the given query parameters''])
                else (Inr (JObj [(''contacts'', JList (map format_contact results))]),
                      [Execute ps])))"

subsection \<open>The route\<close>

text \<open>
  \<^verbatim>\<open>limiter.limit("20/minute")\<close> decorates the handler, and \<^verbatim>\<open>app.get("/contacts")\<close>
  registers the decorated function. Its parameter \<^verbatim>\<open>api_key\<close> is the value of the dependency
  \<^verbatim>\<open>get_current_credentials\<close>: the framework computes the arguments of the registered
  function and then calls it, and the limiter's wrapper counts the hit when it is called,
  before it runs the body. The module installs no limiter middleware, so nothing of the
  limiter runs earlier than that call. The limiter keeps one counter for each remote address
  in the current one-minute window; its storage is an association list whose first entry for
  an address is the current one. The passing of time (a window that ends) and the hourly
  default limit are outside the model.
\<close>

type_synonym limiter_storage = "(string \<times> nat) list"

definition hits :: "limiter_storage \<Rightarrow> string \<Rightarrow> nat" where
  "hits st addr = (case map_of st addr of None \<Rightarrow> 0 | Some n \<Rightarrow> n)"

definition limiter_limit ::
    "limiter_storage \<Rightarrow> string \<Rightarrow> (exn + json) \<times> event list
       \<Rightarrow> (exn + json) \<times> event list \<times> limiter_storage" where
  \<comment> \<open>the wrapper: count the hit, raise when it is beyond 20, else run the body\<close>
  "limiter_limit st addr body =
     (let n = hits st addr + 1
      in if n \<le> 20 then (fst body, snd body, (addr, n) # st)
         else (Inl RateLimitExceeded, [], (addr, n) # st))"

definition get_contacts ::
    "config \<Rightarrow> limiter_storage \<Rightarrow> session \<Rightarrow> string \<Rightarrow> HTTPBasicCredentials
       \<Rightarrow> string option \<Rightarrow> string option
       \<Rightarrow> (exn + json) \<times> event list \<times> limiter_storage" where
  "get_contacts cfg st db host credentials Number Email' =
     (case get_current_credentials cfg credentials of
        (Inl e, evs) \<Rightarrow> (Inl e, evs, st)
      | (Inr api_key, evs) \<Rightarrow>
          (case limiter_limit st host (lookup_contact db Number Email') of
             (r, evs', st') \<Rightarrow> (r, evs @ evs', st')))"

definition response_status :: "exn + json \<Rightarrow> nat" where
  \<comment> \<open>the status of the response: 200 when the handler returns its dictionary\<close>
  "response_status r = (case r of Inl e \<Rightarrow> status_code e | Inr body \<Rightarrow> 200)"

subsection \<open>Reading a response, and the spec's wording of a phone match\<close>

fun json_get :: "string \<Rightarrow> json \<Rightarrow> json option" where
  "json_get k (JObj kvs) = map_of kvs k"
| "json_get k JNull = None"
| "json_get k (JInt i) = None"
| "json_get k (JStr s) = None"
| "json_get k (JList js) = None"






section \<open>Auxiliary facts\<close>

subsection \<open>Splitting and joining\<close>

lemma str_split_not_Nil: "str_split sep s \<noteq> []"
  by (induction s) (auto split: list.splits)

lemma str_split_no_sep: "sep \<notin> set t \<Longrightarrow> str_split sep t = [t]"
  by (induction t) (auto split: list.splits)

lemma str_split_append_sep:
  "sep \<notin> set t \<Longrightarrow> str_split sep (t @ sep # rest) = t # str_split sep rest"
  by (induction t) (auto split: list.splits simp: str_split_not_Nil)

lemma str_split_join:
  "\<forall>t\<in>set (tok # toks). sep \<notin> set t \<Longrightarrow> str_split sep (str_join [sep] (tok # toks)) = tok # toks"
proof (induction toks arbitrary: tok)
  case Nil
  then show ?case by (simp add: str_split_no_sep)
next
  case (Cons v vs)
  then show ?case by (simp add: str_split_append_sep)
qed

lemma str_join_Cons: "ws \<noteq> [] \<Longrightarrow> str_join sep (w # ws) = w @ sep @ str_join sep ws"
  by (cases ws) simp_all

lemma str_join_split: "str_join [sep] (str_split sep s) = s"
proof (induction s)
  case Nil
  show ?case by simp
next
  case (Cons c cs)
  obtain w ws where sp: "str_split sep cs = w # ws"
    using str_split_not_Nil [of sep cs] by (cases "str_split sep cs") auto
  show ?case
  proof (cases "c = sep")
    case True
    then show ?thesis using Cons by (simp add: str_join_Cons str_split_not_Nil)
  next
    case False
    then show ?thesis using Cons sp by (cases ws) simp_all
  qed
qed

lemma str_split_tokens: "\<forall>t\<in>set (str_split sep s). sep \<notin> set t"
  by (induction s) (auto split: list.splits)

lemma display_name_tokens:
  "\<exists>tok toks. s = str_join '' '' (tok # toks) \<and> (\<forall>t\<in>set (tok # toks). CHR '' '' \<notin> set t)"
proof -
  obtain w ws where sp: "str_split CHR '' '' s = w # ws"
    using str_split_not_Nil [of "CHR '' ''" s] by (cases "str_split CHR '' '' s") auto
  have "s = str_join '' '' (w # ws)"
    using str_join_split [of "CHR '' ''" s] sp by simp
  moreover have "\<forall>t\<in>set (w # ws). CHR '' '' \<notin> set t"
    using str_split_tokens [of "CHR '' ''" s] sp by simp
  ultimately show ?thesis by blast
qed

subsection \<open>LIKE patterns and the WHERE clause\<close>





lemma tokens_match_AnyString_last: "tokens_match key [AnyString] s"
  by (induction s) simp_all





lemma sql_or_True: "sql_or a b = Some True \<longleftrightarrow> a = Some True \<or> b = Some True"
  by (simp add: sql_or_def)

lemma sql_and_True: "sql_and a b = Some True \<longleftrightarrow> a = Some True \<and> b = Some True"
  by (auto simp add: sql_and_def)

lemma sql_like_True:
  "sql_like esc key (sql_replace_spaces col) (Some p) = Some True \<longleftrightarrow>
   (\<exists>s. col = Some s \<and> tokens_match key (like_tokens esc p) (replace_spaces s))"
  by (cases col) (simp_all add: sql_like_def sql_replace_spaces_def)

lemma sql_eq_True: "sql_eq a (Some e) = Some True \<longleftrightarrow> a = Some e"
  by (cases a) (auto simp add: sql_eq_def)

lemma selected_iff:
  "selected esc key (build_parameters Number Email') u \<longleftrightarrow>
     (truthy Number \<and>
        (\<exists>s. (HomePhone u = Some s \<or> WorkPhone u = Some s \<or> MobilePhone u = Some s) \<and>
             tokens_match key (like_tokens esc (''%'' @ replace_spaces (the Number) @ ''%''))
               (replace_spaces s)))
     \<or> (truthy Email' \<and> EmailAddress u = Email')"
  apply (cases "truthy Number"; cases "truthy Email'")
  apply (auto simp: selected_def where_clause_def build_parameters_def sql_or_True sql_and_True
      sql_is_not_null_def sql_like_True sql_eq_True truthy_def split: option.splits)
  done




lemma selected_split:
  "selected esc key (build_parameters Number Email') u \<longleftrightarrow>
     selected esc key (build_parameters Number None) u
     \<or> selected esc key (build_parameters None Email') u"
  by (auto simp add: selected_iff truthy_def)

lemma replace_spaces_only_spaces:
  "list_all (\<lambda>c. c = CHR '' '') s \<Longrightarrow> replace_spaces s = []"
  by (induction s) (simp_all add: replace_spaces_def)

lemma tokens_match_AnyString_twice: "tokens_match key [AnyString, AnyString] s"
  by (induction s) (simp_all add: tokens_match_AnyString_last)

subsection \<open>The handler and the route\<close>

lemma or_empty_case: "or_empty v = (case v of None \<Rightarrow> [] | Some s \<Rightarrow> s)"
  by (cases v) (simp_all add: or_empty_def truthy_def)

lemma get_current_credentials_ok:
  "username c = API_KEY cfg \<Longrightarrow> password c = API_PASSWORD cfg \<Longrightarrow>
   get_current_credentials cfg c = (Inr (username c), [])"
  by (simp add: get_current_credentials_def compare_digest_def)

lemma get_current_credentials_bad:
  "username c \<noteq> API_KEY cfg \<or> password c \<noteq> API_PASSWORD cfg \<Longrightarrow>
   get_current_credentials cfg c =
     (Inl (HTTPException 403 ''Could not validate credentials''),
      [Log WARNING ''Invalid API Key or Password''])"
  by (auto simp add: get_current_credentials_def compare_digest_def)

lemma get_contacts_admitted:
  "username c = API_KEY cfg \<Longrightarrow> password c = API_PASSWORD cfg \<Longrightarrow> hits st host < 20 \<Longrightarrow>
   get_contacts cfg st db host c Number Email' =
     (fst (lookup_contact db Number Email'), snd (lookup_contact db Number Email'),
      (host, hits st host + 1) # st)"
  by (simp add: get_contacts_def get_current_credentials_ok limiter_limit_def Let_def)

lemma get_contacts_limited:
  "username c = API_KEY cfg \<Longrightarrow> password c = API_PASSWORD cfg \<Longrightarrow> 20 \<le> hits st host \<Longrightarrow>
   get_contacts cfg st db host c Number Email' =
     (Inl RateLimitExceeded, [], (host, hits st host + 1) # st)"
  by (simp add: get_contacts_def get_current_credentials_ok limiter_limit_def Let_def)

lemma get_contacts_unauthorized:
  "username c \<noteq> API_KEY cfg \<or> password c \<noteq> API_PASSWORD cfg \<Longrightarrow>
   get_contacts cfg st db host c Number Email' =
     (Inl (HTTPException 403 ''Could not validate credentials''),
      [Log WARNING ''Invalid API Key or Password''], st)"
  by (simp add: get_contacts_def get_current_credentials_bad)

lemma lookup_contact_executes_once:
  "truthy Number \<or> truthy Email' \<Longrightarrow>
   filter is_execute (snd (lookup_contact db Number Email')) =
     [Execute (build_parameters Number Email')]"
  by (auto simp add: lookup_contact_def Let_def split: sum.splits)

lemma get_contacts_not_400:
  "truthy Number \<or> truthy Email' \<Longrightarrow>
   response_status (fst (get_contacts cfg st db host c Number Email')) \<noteq> 400"
  by (auto simp add: get_contacts_def get_current_credentials_def limiter_limit_def
      lookup_contact_def response_status_def Let_def split: sum.splits)

lemma format_contact_names:
  assumes "\<forall>t\<in>set (tok # toks). CHR '' '' \<notin> set t"
  shows "format_contact (c\<lparr>firstname := Some (str_join '' '' (tok # toks))\<rparr>) =
     JObj [(''contactid'', JInt (contactid c)),
           (''firstname'', JStr tok),
           (''lastname'', JStr (str_join '' '' toks)),
           (''company'', JStr (or_empty (company c))),
           (''email'', (case Email c of None \<Rightarrow> JNull | Some s \<Rightarrow> JStr s)),
           (''phonebusiness'', JStr (or_empty (PhoneBusiness c))),
           (''phonemobile'', JStr (or_empty (PhoneMobile c))),
           (''phonehome'', JStr (or_empty (PhoneHome c)))]"
proof -
  have sp: "str_split CHR '' '' (str_join '' '' (tok # toks)) = tok # toks"
    using assms by (rule str_split_join)
  show ?thesis
    using sp by (cases toks) (simp_all add: format_contact_def Let_def or_empty_case)
qed

lemma lookup_contact_response:
  "fst (lookup_contact db Number Email') = Inr body \<Longrightarrow>
   body = JObj [(''contacts'',
            JList (map (\<lambda>u. format_contact (select_list u))
                     (filter (selected (backslash_escapes db) (like_key db)
                                (build_parameters Number Email'))
                        (Users db))))]"
  by (auto simp add: lookup_contact_def execute_def Let_def comp_def
      split: if_splits sum.splits option.splits)

section \<open>Properties of the endpoint\<close>

subsection \<open>Authentication\<close>

text \<open>
  Claim C7. Authentication succeeds exactly when both the identifier and the secret match the
  configured pair. For every mismatch (wrong identifier, wrong secret, or both) the outcome
  is one and the same: status 403 with the detail "Could not validate credentials" and the
  same warning in the log, so nothing in it tells which of the two fields was wrong.
\<close>

theorem credentials_both_fields:
  "(get_current_credentials cfg c = (Inr (username c), [])) =
     (username c = API_KEY cfg \<and> password c = API_PASSWORD cfg)
   \<and> (get_current_credentials cfg c =
        (Inl (HTTPException 403 ''Could not validate credentials''),
         [Log WARNING ''Invalid API Key or Password''])) =
     (username c \<noteq> API_KEY cfg \<or> password c \<noteq> API_PASSWORD cfg)"
  by (auto simp add: get_current_credentials_def compare_digest_def)

theorem credentials_both_fields_witness:
  "get_current_credentials \<lparr>API_KEY = ''key'', API_PASSWORD = ''secret''\<rparr>
     \<lparr>username = ''key'', password = ''secret''\<rparr> = (Inr ''key'', [])
   \<and> get_current_credentials \<lparr>API_KEY = ''key'', API_PASSWORD = ''secret''\<rparr>
       \<lparr>username = ''kex'', password = ''secret''\<rparr>
     = (Inl (HTTPException 403 ''Could not validate credentials''),
        [Log WARNING ''Invalid API Key or Password''])
   \<and> get_current_credentials \<lparr>API_KEY = ''key'', API_PASSWORD = ''secret''\<rparr>
       \<lparr>username = ''key'', password = ''secrex''\<rparr>
     = (Inl (HTTPException 403 ''Could not validate credentials''),
        [Log WARNING ''Invalid API Key or Password''])
   \<and> get_current_credentials \<lparr>API_KEY = ''key'', API_PASSWORD = ''secret''\<rparr>
       \<lparr>username = ''kex'', password = ''secrex''\<rparr>
     = (Inl (HTTPException 403 ''Could not validate credentials''),
        [Log WARNING ''Invalid API Key or Password''])"
  using credentials_both_fields [of "\<lparr>API_KEY = ''key'', API_PASSWORD = ''secret''\<rparr>"
          "\<lparr>username = ''key'', password = ''secret''\<rparr>"]
        credentials_both_fields [of "\<lparr>API_KEY = ''key'', API_PASSWORD = ''secret''\<rparr>"
          "\<lparr>username = ''kex'', password = ''secret''\<rparr>"]
        credentials_both_fields [of "\<lparr>API_KEY = ''key'', API_PASSWORD = ''secret''\<rparr>"
          "\<lparr>username = ''key'', password = ''secrex''\<rparr>"]
        credentials_both_fields [of "\<lparr>API_KEY = ''key'', API_PASSWORD = ''secret''\<rparr>"
          "\<lparr>username = ''kex'', password = ''secrex''\<rparr>"]
  by simp

subsection \<open>Validation\<close>

text \<open>
  Claim C6. A request with matching credentials, from an address the limiter admits, in
  which both Number and Email are absent or empty, is answered 400 and no query is executed.
\<close>

theorem missing_parameters_bad_request:
  assumes "username c = API_KEY cfg" and "password c = API_PASSWORD cfg"
    and "hits st host < 20"
    and "\<not> truthy Number" and "\<not> truthy Email'"
  shows "fst (get_contacts cfg st db host c Number Email') =
           Inl (HTTPException 400 ''Either Number or Email must be provided'')
         \<and> response_status (fst (get_contacts cfg st db host c Number Email')) = 400
         \<and> filter is_execute (fst (snd (get_contacts cfg st db host c Number Email'))) = []"
  using assms by (simp add: get_contacts_admitted lookup_contact_def response_status_def)

theorem missing_parameters_bad_request_witness:
  "fst (get_contacts \<lparr>API_KEY = ''key'', API_PASSWORD = ''secret''\<rparr> []
       \<lparr>Users = [], failure = None, backslash_escapes = True, like_key = id\<rparr> ''10.0.0.5''
       \<lparr>username = ''key'', password = ''secret''\<rparr> None (Some '''')) =
     Inl (HTTPException 400 ''Either Number or Email must be provided'')
   \<and> response_status (fst (get_contacts \<lparr>API_KEY = ''key'', API_PASSWORD = ''secret''\<rparr> []
       \<lparr>Users = [], failure = None, backslash_escapes = True, like_key = id\<rparr> ''10.0.0.5''
       \<lparr>username = ''key'', password = ''secret''\<rparr> None (Some ''''))) = 400
   \<and> filter is_execute (fst (snd (get_contacts \<lparr>API_KEY = ''key'', API_PASSWORD = ''secret''\<rparr> []
       \<lparr>Users = [], failure = None, backslash_escapes = True, like_key = id\<rparr> ''10.0.0.5''
       \<lparr>username = ''key'', password = ''secret''\<rparr> None (Some '''')))) = []"
  by (rule missing_parameters_bad_request) (simp_all add: hits_def truthy_def)

subsection \<open>No rows, and a failing store\<close>

text \<open>
  Claim C8. For a request with matching credentials that the limiter admits and that
  supplies Number or Email: when the query returns no rows the answer is 404; when executing
  it raises, the answer is 500 with the fixed detail "Database error occurred.", the message
  of the exception goes to the error log only; and in every case the query is executed
  exactly once.
\<close>

theorem not_found_and_database_error:
  assumes "username c = API_KEY cfg" and "password c = API_PASSWORD cfg"
    and "hits st host < 20"
    and "truthy Number \<or> truthy Email'"
  shows "(execute db (build_parameters Number Email') = Inr [] \<longrightarrow>
            fst (get_contacts cfg st db host c Number Email') =
              Inl (HTTPException 404 ''Contact not found''))
         \<and> (\<forall>msg. execute db (build_parameters Number Email') = Inl msg \<longrightarrow>
              fst (get_contacts cfg st db host c Number Email') =
                Inl (HTTPException 500 ''Database error occurred.'')
              \<and> Log ERROR (''Database error: '' @ msg)
                  \<in> set (fst (snd (get_contacts cfg st db host c Number Email'))))
         \<and> filter is_execute (fst (snd (get_contacts cfg st db host c Number Email'))) =
             [Execute (build_parameters Number Email')]"
proof -
  have out: "get_contacts cfg st db host c Number Email' =
      (fst (lookup_contact db Number Email'), snd (lookup_contact db Number Email'),
       (host, hits st host + 1) # st)"
    using assms(1-3) by (rule get_contacts_admitted)
  have nf: "execute db (build_parameters Number Email') = Inr [] \<Longrightarrow>
      fst (lookup_contact db Number Email') = Inl (HTTPException 404 ''Contact not found'')"
    using assms(4) by (auto simp add: lookup_contact_def Let_def)
  have err: "\<And>msg. execute db (build_parameters Number Email') = Inl msg \<Longrightarrow>
      lookup_contact db Number Email' =
        (Inl (HTTPException 500 ''Database error occurred.''),
         [Execute (build_parameters Number Email'), Log ERROR (''Database error: '' @ msg)])"
    using assms(4) by (auto simp add: lookup_contact_def Let_def)
  show ?thesis
    using nf err lookup_contact_executes_once [OF assms(4), of db]
    by (simp add: out)
qed

theorem not_found_and_database_error_witness:
  "response_status (fst (get_contacts \<lparr>API_KEY = ''key'', API_PASSWORD = ''secret''\<rparr> []
       \<lparr>Users = [\<lparr>row_id = 1, RealName = Some ''Jane Public'', WorkPhone = Some ''555 1234567'',
                  MobilePhone = None, HomePhone = None, EmailAddress = None,
                  Organization = None\<rparr>],
        failure = None, backslash_escapes = True, like_key = id\<rparr> ''10.0.0.5''
       \<lparr>username = ''key'', password = ''secret''\<rparr> (Some ''777'') None)) = 404
   \<and> fst (get_contacts \<lparr>API_KEY = ''key'', API_PASSWORD = ''secret''\<rparr> []
       \<lparr>Users = [], failure = Some ''connection refused'', backslash_escapes = True, like_key = id\<rparr>
       ''10.0.0.5'' \<lparr>username = ''key'', password = ''secret''\<rparr> (Some ''777'') None)
     = Inl (HTTPException 500 ''Database error occurred.'')
   \<and> Log ERROR ''Database error: connection refused''
       \<in> set (fst (snd (get_contacts \<lparr>API_KEY = ''key'', API_PASSWORD = ''secret''\<rparr> []
       \<lparr>Users = [], failure = Some ''connection refused'', backslash_escapes = True, like_key = id\<rparr>
       ''10.0.0.5'' \<lparr>username = ''key'', password = ''secret''\<rparr> (Some ''777'') None)))"
proof -
  let ?cfg = "\<lparr>API_KEY = ''key'', API_PASSWORD = ''secret''\<rparr>"
  let ?c = "\<lparr>username = ''key'', password = ''secret''\<rparr>"
  let ?db1 = "\<lparr>Users = [\<lparr>row_id = 1, RealName = Some ''Jane Public'',
                  WorkPhone = Some ''555 1234567'',
                  MobilePhone = None, HomePhone = None, EmailAddress = None,
                  Organization = None\<rparr>],
        failure = None, backslash_escapes = True, like_key = id\<rparr>"
  let ?db2 = "\<lparr>Users = [], failure = Some ''connection refused'', backslash_escapes = True, like_key = id\<rparr>"
  have h1: "username ?c = API_KEY ?cfg" and h2: "password ?c = API_PASSWORD ?cfg"
    and h3: "hits [] ''10.0.0.5'' < 20" and h4: "truthy (Some ''777'') \<or> truthy None"
    by (simp_all add: hits_def truthy_def)
  have e1: "execute ?db1 (build_parameters (Some ''777'') None) = Inr []"
    by (simp add: execute_def selected_iff truthy_def replace_spaces_def like_token_of_def)
  have e2: "execute ?db2 (build_parameters (Some ''777'') None) = Inl ''connection refused''"
    by (simp add: execute_def)
  show ?thesis
    using not_found_and_database_error [OF h1 h2 h3 h4, of ?db1]
          not_found_and_database_error [OF h1 h2 h3 h4, of ?db2] e1 e2
    by (simp add: response_status_def)
qed

subsection \<open>The limiter and authentication\<close>

text \<open>
  Claim C2, as amended. For a request from an address whose counter has reached the
  threshold of 20 in the current minute: with matching credentials the answer is 429; with
  mismatching credentials the answer is the 403 of the authentication dependency, which is
  resolved before the limiter's wrapper is entered; in both cases no query is executed.
\<close>

theorem rate_limit_after_authentication:
  assumes "20 \<le> hits st host"
  shows "(username c = API_KEY cfg \<and> password c = API_PASSWORD cfg \<longrightarrow>
            fst (get_contacts cfg st db host c Number Email') = Inl RateLimitExceeded
            \<and> response_status (fst (get_contacts cfg st db host c Number Email')) = 429)
         \<and> (username c \<noteq> API_KEY cfg \<or> password c \<noteq> API_PASSWORD cfg \<longrightarrow>
            fst (get_contacts cfg st db host c Number Email') =
              Inl (HTTPException 403 ''Could not validate credentials'')
            \<and> response_status (fst (get_contacts cfg st db host c Number Email')) = 403)
         \<and> filter is_execute (fst (snd (get_contacts cfg st db host c Number Email'))) = []"
proof -
  have ok: "username c = API_KEY cfg \<and> password c = API_PASSWORD cfg \<Longrightarrow>
      get_contacts cfg st db host c Number Email' =
        (Inl RateLimitExceeded, [], (host, hits st host + 1) # st)"
    using assms by (simp add: get_contacts_limited)
  have bad: "username c \<noteq> API_KEY cfg \<or> password c \<noteq> API_PASSWORD cfg \<Longrightarrow>
      get_contacts cfg st db host c Number Email' =
        (Inl (HTTPException 403 ''Could not validate credentials''),
         [Log WARNING ''Invalid API Key or Password''], st)"
    by (rule get_contacts_unauthorized)
  show ?thesis
  proof (cases "username c = API_KEY cfg \<and> password c = API_PASSWORD cfg")
    case True
    with ok [OF True] show ?thesis by (simp add: response_status_def)
  next
    case False
    then have m: "username c \<noteq> API_KEY cfg \<or> password c \<noteq> API_PASSWORD cfg" by simp
    from False bad [OF m] show ?thesis by (simp add: response_status_def)
  qed
qed

theorem rate_limit_after_authentication_witness:
  "response_status (fst (get_contacts \<lparr>API_KEY = ''key'', API_PASSWORD = ''secret''\<rparr>
       [(''203.0.113.7'', 20)]
       \<lparr>Users = [], failure = None, backslash_escapes = True, like_key = id\<rparr> ''203.0.113.7''
       \<lparr>username = ''key'', password = ''secret''\<rparr> (Some ''555'') None)) = 429
   \<and> filter is_execute (fst (snd (get_contacts \<lparr>API_KEY = ''key'', API_PASSWORD = ''secret''\<rparr>
       [(''203.0.113.7'', 20)]
       \<lparr>Users = [], failure = None, backslash_escapes = True, like_key = id\<rparr> ''203.0.113.7''
       \<lparr>username = ''key'', password = ''secret''\<rparr> (Some ''555'') None))) = []"
proof -
  have h: "20 \<le> hits [(''203.0.113.7'', 20)] ''203.0.113.7''"
    by (simp add: hits_def)
  show ?thesis
    using rate_limit_after_authentication [OF h,
        of "\<lparr>username = ''key'', password = ''secret''\<rparr>"
           "\<lparr>API_KEY = ''key'', API_PASSWORD = ''secret''\<rparr>"
           "\<lparr>Users = [], failure = None, backslash_escapes = True, like_key = id\<rparr>" "Some ''555''" None]
    by (simp add: response_status_def)
qed

text \<open>
  The 429 is not independent of the credentials: from an address that has used up its 20
  requests, a request with a wrong secret is answered 403.
\<close>

theorem rate_limit_before_authentication_counterexample:
  "20 \<le> hits [(''203.0.113.7'', 20)] ''203.0.113.7''
   \<and> response_status (fst (get_contacts \<lparr>API_KEY = ''key'', API_PASSWORD = ''secret''\<rparr>
       [(''203.0.113.7'', 20)]
       \<lparr>Users = [], failure = None, backslash_escapes = True, like_key = id\<rparr> ''203.0.113.7''
       \<lparr>username = ''key'', password = ''wrong''\<rparr> (Some ''555'') None)) = 403
   \<and> response_status (fst (get_contacts \<lparr>API_KEY = ''key'', API_PASSWORD = ''secret''\<rparr>
       [(''203.0.113.7'', 20)]
       \<lparr>Users = [], failure = None, backslash_escapes = True, like_key = id\<rparr> ''203.0.113.7''
       \<lparr>username = ''key'', password = ''wrong''\<rparr> (Some ''555'') None)) \<noteq> 429"
  by (simp add: hits_def get_contacts_def get_current_credentials_def compare_digest_def
      response_status_def)

subsection \<open>Matching by phone number\<close>




text \<open>
  Claim C10. A Number that is not empty and consists of spaces only passes the validator, so
  the request is not answered 400; stripping the spaces leaves the empty string, the LIKE
  pattern is \<^verbatim>\<open>%%\<close>, and a contact is selected exactly when at least one of its three phone
  columns is not NULL.
\<close>

theorem spaces_only_number_matches_every_phone:
  assumes "Number \<noteq> []" and "list_all (\<lambda>c. c = CHR '' '') Number"
  shows "response_status (fst (get_contacts cfg st db host c (Some Number) None)) \<noteq> 400
         \<and> response_status (fst (lookup_contact db (Some Number) None)) \<noteq> 400
         \<and> like_pattern (build_parameters (Some Number) None) = Some ''%%''
         \<and> (selected esc key (build_parameters (Some Number) None) u \<longleftrightarrow>
              WorkPhone u \<noteq> None \<or> MobilePhone u \<noteq> None \<or> HomePhone u \<noteq> None)"
proof -
  have t: "truthy (Some Number) \<or> truthy None"
    using assms(1) by (simp add: truthy_def)
  have r: "replace_spaces Number = []"
    using assms(2) by (rule replace_spaces_only_spaces)
  have a: "response_status (fst (get_contacts cfg st db host c (Some Number) None)) \<noteq> 400"
    using t by (rule get_contacts_not_400)
  have b: "response_status (fst (lookup_contact db (Some Number) None)) \<noteq> 400"
    using t by (auto simp add: lookup_contact_def response_status_def Let_def split: sum.splits)
  have p: "like_pattern (build_parameters (Some Number) None) = Some ''%%''"
    using assms(1) r by (simp add: build_parameters_def truthy_def)
  have m: "\<And>s. tokens_match key (like_tokens esc ''%%'') s"
    by (simp add: like_token_of_def tokens_match_AnyString_twice)
  have s: "selected esc key (build_parameters (Some Number) None) u \<longleftrightarrow>
      WorkPhone u \<noteq> None \<or> MobilePhone u \<noteq> None \<or> HomePhone u \<noteq> None"
    using assms(1) m by (auto simp add: selected_iff truthy_def r)
  from a b p s show ?thesis by blast
qed

theorem spaces_only_number_matches_every_phone_witness:
  "like_pattern (build_parameters (Some ''   '') None) = Some ''%%''
   \<and> selected True id (build_parameters (Some ''   '') None)
       \<lparr>row_id = 1, RealName = None, WorkPhone = None, MobilePhone = Some ''0170 1'',
        HomePhone = None, EmailAddress = None, Organization = None\<rparr>
   \<and> \<not> selected True id (build_parameters (Some ''   '') None)
       \<lparr>row_id = 2, RealName = None, WorkPhone = None, MobilePhone = None,
        HomePhone = None, EmailAddress = Some ''a@b.com'', Organization = None\<rparr>
   \<and> response_status (fst (lookup_contact
         \<lparr>Users = [], failure = None, backslash_escapes = True, like_key = id\<rparr> (Some ''   '') None)) \<noteq> 400"
proof -
  have h: "''   '' \<noteq> []" "list_all (\<lambda>c. c = CHR '' '') ''   ''"
    by simp_all
  show ?thesis
    using spaces_only_number_matches_every_phone [OF h, of _ _
            "\<lparr>Users = [], failure = None, backslash_escapes = True, like_key = id\<rparr>" _ _ True id
            "\<lparr>row_id = 1, RealName = None, WorkPhone = None, MobilePhone = Some ''0170 1'',
              HomePhone = None, EmailAddress = None, Organization = None\<rparr>"]
          spaces_only_number_matches_every_phone [OF h, of _ _
            "\<lparr>Users = [], failure = None, backslash_escapes = True, like_key = id\<rparr>" _ _ True id
            "\<lparr>row_id = 2, RealName = None, WorkPhone = None, MobilePhone = None,
              HomePhone = None, EmailAddress = Some ''a@b.com'', Organization = None\<rparr>"]
    by simp
qed

subsection \<open>Matching by email, and by both parameters\<close>



text \<open>
  Claim C3. When both Number and Email are supplied, the query returns exactly the contacts
  that the phone predicate selects (those a request with the Number alone would return) or
  the email predicate selects (those a request with the Email alone would return), in the
  order of the table.
\<close>

theorem both_parameters_either_predicate:
  assumes "truthy Number" and "truthy Email'" and "failure db = None"
  shows "execute db (build_parameters Number Email') =
           Inr (map select_list
                  (filter
                     (\<lambda>u. selected (backslash_escapes db) (like_key db)
                            (build_parameters Number None) u
                          \<or> selected (backslash_escapes db) (like_key db)
                               (build_parameters None Email') u)
                     (Users db)))"
  using assms(3) selected_split [of "backslash_escapes db" "like_key db" Number Email']
  by (simp add: execute_def cong: filter_cong)

theorem both_parameters_either_predicate_witness:
  "execute
     \<lparr>Users =
        [\<lparr>row_id = 1, RealName = Some ''Ann'', WorkPhone = Some ''555 123'', MobilePhone = None,
          HomePhone = None, EmailAddress = Some ''ann@x.org'', Organization = None\<rparr>,
         \<lparr>row_id = 2, RealName = Some ''Bob'', WorkPhone = Some ''777'', MobilePhone = None,
          HomePhone = None, EmailAddress = Some ''a@b.com'', Organization = None\<rparr>,
         \<lparr>row_id = 3, RealName = Some ''Cy'', WorkPhone = Some ''888'', MobilePhone = None,
          HomePhone = None, EmailAddress = Some ''cy@x.org'', Organization = None\<rparr>],
      failure = None, backslash_escapes = True, like_key = id\<rparr>
     (build_parameters (Some ''5551'') (Some ''a@b.com''))
   = Inr [\<lparr>contactid = 1, firstname = Some ''Ann'', lastname = Some ''Ann'',
           PhoneBusiness = Some ''555 123'', PhoneMobile = None, PhoneHome = None,
           Email = Some ''ann@x.org'', company = None\<rparr>,
          \<lparr>contactid = 2, firstname = Some ''Bob'', lastname = Some ''Bob'',
           PhoneBusiness = Some ''777'', PhoneMobile = None, PhoneHome = None,
           Email = Some ''a@b.com'', company = None\<rparr>]"
proof -
  let ?db = "\<lparr>Users =
        [\<lparr>row_id = 1, RealName = Some ''Ann'', WorkPhone = Some ''555 123'', MobilePhone = None,
          HomePhone = None, EmailAddress = Some ''ann@x.org'', Organization = None\<rparr>,
         \<lparr>row_id = 2, RealName = Some ''Bob'', WorkPhone = Some ''777'', MobilePhone = None,
          HomePhone = None, EmailAddress = Some ''a@b.com'', Organization = None\<rparr>,
         \<lparr>row_id = 3, RealName = Some ''Cy'', WorkPhone = Some ''888'', MobilePhone = None,
          HomePhone = None, EmailAddress = Some ''cy@x.org'', Organization = None\<rparr>],
      failure = None, backslash_escapes = True, like_key = id\<rparr>"
  have h: "truthy (Some ''5551'')" "truthy (Some ''a@b.com'')" "failure ?db = None"
    by (simp_all add: truthy_def)
  show ?thesis
    using both_parameters_either_predicate [OF h]
    by (simp add: selected_iff truthy_def replace_spaces_def like_token_of_def select_list_def)
qed

subsection \<open>Formatting a record\<close>

text \<open>
  Every record of a response is \<^term>\<open>format_contact (select_list u)\<close> for a selected row
  \<^term>\<open>u\<close> of the table (lemma \<open>lookup_contact_response\<close>), and every display name is a
  sequence of tokens without spaces, joined by single spaces (lemma \<open>display_name_tokens\<close>).
\<close>

text \<open>
  Claim C4. A display name that is NULL or empty gives an empty firstname and an empty
  lastname. A display name made of the tokens \<open>tok\<close>, \<open>toks\<close> joined by single spaces gives
  firstname \<open>tok\<close> and lastname \<open>toks\<close> joined by single spaces, which is empty for a name of
  one token.
\<close>

theorem display_name_split:
  "(RealName u = None \<or> RealName u = Some [] \<longrightarrow>
      json_get ''firstname'' (format_contact (select_list u)) = Some (JStr [])
      \<and> json_get ''lastname'' (format_contact (select_list u)) = Some (JStr []))
   \<and> (\<forall>tok toks.
        RealName u = Some (str_join '' '' (tok # toks))
        \<and> (\<forall>t\<in>set (tok # toks). CHR '' '' \<notin> set t) \<longrightarrow>
          json_get ''firstname'' (format_contact (select_list u)) = Some (JStr tok)
          \<and> json_get ''lastname'' (format_contact (select_list u)) =
              Some (JStr (str_join '' '' toks)))"
proof -
  have a: "RealName u = None \<or> RealName u = Some [] \<Longrightarrow>
      json_get ''firstname'' (format_contact (select_list u)) = Some (JStr [])
      \<and> json_get ''lastname'' (format_contact (select_list u)) = Some (JStr [])"
    by (auto simp add: format_contact_def select_list_def Let_def or_empty_case)
  have b: "\<And>tok toks. RealName u = Some (str_join '' '' (tok # toks)) \<Longrightarrow>
      \<forall>t\<in>set (tok # toks). CHR '' '' \<notin> set t \<Longrightarrow>
      json_get ''firstname'' (format_contact (select_list u)) = Some (JStr tok)
      \<and> json_get ''lastname'' (format_contact (select_list u)) =
          Some (JStr (str_join '' '' toks))"
  proof -
    fix tok toks
    assume r: "RealName u = Some (str_join '' '' (tok # toks))"
      and t: "\<forall>t\<in>set (tok # toks). CHR '' '' \<notin> set t"
    have "select_list u = (select_list u)\<lparr>firstname := Some (str_join '' '' (tok # toks))\<rparr>"
      using r by (simp add: select_list_def)
    then have "format_contact (select_list u) =
        format_contact ((select_list u)\<lparr>firstname := Some (str_join '' '' (tok # toks))\<rparr>)"
      by simp
    then show "json_get ''firstname'' (format_contact (select_list u)) = Some (JStr tok)
      \<and> json_get ''lastname'' (format_contact (select_list u)) =
          Some (JStr (str_join '' '' toks))"
      by (simp add: format_contact_names [OF t])
  qed
  from a b show ?thesis by blast
qed

theorem display_name_split_witness:
  "json_get ''firstname'' (format_contact (select_list
      \<lparr>row_id = 1, RealName = Some ''Jane Q Public'', WorkPhone = None, MobilePhone = None,
       HomePhone = None, EmailAddress = None, Organization = None\<rparr>)) = Some (JStr ''Jane'')
   \<and> json_get ''lastname'' (format_contact (select_list
      \<lparr>row_id = 1, RealName = Some ''Jane Q Public'', WorkPhone = None, MobilePhone = None,
       HomePhone = None, EmailAddress = None, Organization = None\<rparr>)) = Some (JStr ''Q Public'')
   \<and> json_get ''firstname'' (format_contact (select_list
      \<lparr>row_id = 2, RealName = Some ''Madonna'', WorkPhone = None, MobilePhone = None,
       HomePhone = None, EmailAddress = None, Organization = None\<rparr>)) = Some (JStr ''Madonna'')
   \<and> json_get ''lastname'' (format_contact (select_list
      \<lparr>row_id = 2, RealName = Some ''Madonna'', WorkPhone = None, MobilePhone = None,
       HomePhone = None, EmailAddress = None, Organization = None\<rparr>)) = Some (JStr '''')
   \<and> json_get ''firstname'' (format_contact (select_list
      \<lparr>row_id = 3, RealName = None, WorkPhone = None, MobilePhone = None,
       HomePhone = None, EmailAddress = None, Organization = None\<rparr>)) = Some (JStr '''')
   \<and> json_get ''lastname'' (format_contact (select_list
      \<lparr>row_id = 3, RealName = None, WorkPhone = None, MobilePhone = None,
       HomePhone = None, EmailAddress = None, Organization = None\<rparr>)) = Some (JStr '''')"
proof -
  let ?jane = "\<lparr>row_id = 1, RealName = Some ''Jane Q Public'', WorkPhone = None,
       MobilePhone = None, HomePhone = None, EmailAddress = None, Organization = None\<rparr>"
  let ?madonna = "\<lparr>row_id = 2, RealName = Some ''Madonna'', WorkPhone = None,
       MobilePhone = None, HomePhone = None, EmailAddress = None, Organization = None\<rparr>"
  let ?nobody = "\<lparr>row_id = 3, RealName = None, WorkPhone = None,
       MobilePhone = None, HomePhone = None, EmailAddress = None, Organization = None\<rparr>"
  have j: "RealName ?jane = Some (str_join '' '' (''Jane'' # [''Q'', ''Public'']))
      \<and> (\<forall>t\<in>set (''Jane'' # [''Q'', ''Public'']). CHR '' '' \<notin> set t)"
    by simp
  have m: "RealName ?madonna = Some (str_join '' '' (''Madonna'' # []))
      \<and> (\<forall>t\<in>set (''Madonna'' # []). CHR '' '' \<notin> set t)"
    by simp
  have n: "RealName ?nobody = None \<or> RealName ?nobody = Some []"
    by simp
  have "json_get ''firstname'' (format_contact (select_list ?jane)) = Some (JStr ''Jane'')
      \<and> json_get ''lastname'' (format_contact (select_list ?jane)) =
          Some (JStr (str_join '' '' [''Q'', ''Public'']))"
    using display_name_split [of ?jane] j by blast
  moreover have "json_get ''firstname'' (format_contact (select_list ?madonna)) =
        Some (JStr ''Madonna'')
      \<and> json_get ''lastname'' (format_contact (select_list ?madonna)) =
          Some (JStr (str_join '' '' []))"
    using display_name_split [of ?madonna] m by blast
  moreover have "json_get ''firstname'' (format_contact (select_list ?nobody)) = Some (JStr [])
      \<and> json_get ''lastname'' (format_contact (select_list ?nobody)) = Some (JStr [])"
    using display_name_split [of ?nobody] n by blast
  ultimately show ?thesis by simp
qed

text \<open>
  Claim C5. In a formatted record, company and the three phone fields are strings, empty
  when the column is NULL; email is the column's value as it is, \<^term>\<open>JNull\<close> when the
  column is NULL.
\<close>

theorem null_fields_rendered:
  "json_get ''company'' (format_contact (select_list u)) =
      Some (JStr (case Organization u of None \<Rightarrow> [] | Some s \<Rightarrow> s))
   \<and> json_get ''phonebusiness'' (format_contact (select_list u)) =
      Some (JStr (case WorkPhone u of None \<Rightarrow> [] | Some s \<Rightarrow> s))
   \<and> json_get ''phonemobile'' (format_contact (select_list u)) =
      Some (JStr (case MobilePhone u of None \<Rightarrow> [] | Some s \<Rightarrow> s))
   \<and> json_get ''phonehome'' (format_contact (select_list u)) =
      Some (JStr (case HomePhone u of None \<Rightarrow> [] | Some s \<Rightarrow> s))
   \<and> json_get ''email'' (format_contact (select_list u)) =
      Some (case EmailAddress u of None \<Rightarrow> JNull | Some s \<Rightarrow> JStr s)"
  by (simp add: format_contact_def select_list_def Let_def or_empty_case)

theorem null_fields_rendered_witness:
  "json_get ''company'' (format_contact (select_list
      \<lparr>row_id = 1, RealName = Some ''Jane Public'', WorkPhone = Some ''555 1234567'',
       MobilePhone = None, HomePhone = None, EmailAddress = None, Organization = None\<rparr>))
     = Some (JStr '''')
   \<and> json_get ''phonebusiness'' (format_contact (select_list
      \<lparr>row_id = 1, RealName = Some ''Jane Public'', WorkPhone = Some ''555 1234567'',
       MobilePhone = None, HomePhone = None, EmailAddress = None, Organization = None\<rparr>))
     = Some (JStr ''555 1234567'')
   \<and> json_get ''phonemobile'' (format_contact (select_list
      \<lparr>row_id = 1, RealName = Some ''Jane Public'', WorkPhone = Some ''555 1234567'',
       MobilePhone = None, HomePhone = None, EmailAddress = None, Organization = None\<rparr>))
     = Some (JStr '''')
   \<and> json_get ''phonehome'' (format_contact (select_list
      \<lparr>row_id = 1, RealName = Some ''Jane Public'', WorkPhone = Some ''555 1234567'',
       MobilePhone = None, HomePhone = None, EmailAddress = None, Organization = None\<rparr>))
     = Some (JStr '''')
   \<and> json_get ''email'' (format_contact (select_list
      \<lparr>row_id = 1, RealName = Some ''Jane Public'', WorkPhone = Some ''555 1234567'',
       MobilePhone = None, HomePhone = None, EmailAddress = None, Organization = None\<rparr>))
     = Some JNull"
  using null_fields_rendered [of "\<lparr>row_id = 1, RealName = Some ''Jane Public'',
       WorkPhone = Some ''555 1234567'', MobilePhone = None, HomePhone = None,
       EmailAddress = None, Organization = None\<rparr>"]
  by simp

subsection \<open>A whole request\<close>

text \<open>
  The spec's scenario: \<^verbatim>\<open>GET /contacts?Number=555+123+4567\<close> with matching credentials, on a
  table with one row.
\<close>

lemma scenario_spaced_number:
  "get_contacts \<lparr>API_KEY = ''key'', API_PASSWORD = ''secret''\<rparr> []
     \<lparr>Users = [\<lparr>row_id = 1, RealName = Some ''Jane Public'', WorkPhone = Some ''555 1234567'',
                MobilePhone = None, HomePhone = None, EmailAddress = None,
                Organization = None\<rparr>],
      failure = None, backslash_escapes = True, like_key = id\<rparr>
     ''10.0.0.5'' \<lparr>username = ''key'', password = ''secret''\<rparr> (Some ''555 123 4567'') None
   = (Inr (JObj [(''contacts'', JList [JObj
        [(''contactid'', JInt 1), (''firstname'', JStr ''Jane''), (''lastname'', JStr ''Public''),
         (''company'', JStr ''''), (''email'', JNull), (''phonebusiness'', JStr ''555 1234567''),
         (''phonemobile'', JStr ''''), (''phonehome'', JStr '''')]])]),
      [Execute \<lparr>like_pattern = Some ''%5551234567%'', number = Some ''555 123 4567'',
                exact_email = None, email = None\<rparr>],
      [(''10.0.0.5'', 1)])"
proof -
  let ?u = "\<lparr>row_id = 1, RealName = Some ''Jane Public'', WorkPhone = Some ''555 1234567'',
                MobilePhone = None, HomePhone = None, EmailAddress = None,
                Organization = None\<rparr>"
  have bp: "build_parameters (Some ''555 123 4567'') None =
      \<lparr>like_pattern = Some ''%5551234567%'', number = Some ''555 123 4567'',
       exact_email = None, email = None\<rparr>"
    by (simp add: build_parameters_def truthy_def replace_spaces_def)
  have "selected True id (build_parameters (Some ''555 123 4567'') None) ?u"
    by (simp add: selected_iff truthy_def replace_spaces_def like_token_of_def)
  then have sel: "selected True id \<lparr>like_pattern = Some ''%5551234567%'',
      number = Some ''555 123 4567'', exact_email = None, email = None\<rparr> ?u"
    by (simp only: bp)
  show ?thesis
    using sel
    by (simp add: get_contacts_def get_current_credentials_def compare_digest_def
        limiter_limit_def hits_def lookup_contact_def execute_def truthy_def bp
        select_list_def format_contact_def or_empty_def Let_def)
qed

end
